theory Spec2Isabelle
  imports Complex_Main
begin

section \<open>The LLM mute plugin: data model\<close>

text \<open>
  The plugin object of \<^verbatim>\<open>main.py\<close> (class \<^verbatim>\<open>LLMMutePlugin\<close>) holds two dictionaries
  and a set, keyed by session id, and one file on disk, \<^verbatim>\<open>data/llm_mute/data.json\<close>.

  Instants are Python floats (\<^verbatim>\<open>datetime.now().timestamp()\<close>); they are taken here as
  real numbers, so rounding of the floating-point addition and subtraction is left out.
  A session id is a Python \<^verbatim>\<open>str\<close>; here it is a \<open>string\<close>, the bytes of its UTF-8
  encoding. Every reading of the clock is a parameter of the function that reads it.
  Of the log lines only the one of \<^verbatim>\<open>_mute\<close> is modelled, because evaluating its
  text can raise; the others only report and are left out.
\<close>

type_synonym sid = string
type_synonym instants = "sid \<rightharpoonup> real"

text \<open>
  The content of the persistence file. \<^verbatim>\<open>json.dump\<close> and \<^verbatim>\<open>json.load\<close> are library code:
  the file is modelled by the JSON value it holds, an object whose fields hold
  dictionaries from session id to instant. A file that \<^verbatim>\<open>json.load\<close> cannot read
  is \<open>Corrupt\<close>.
\<close>

datatype file_content = NoFile | Corrupt | Snapshot "string \<rightharpoonup> instants"

record plugin =
  muted_until :: instants
  generating :: "sid set"
  last_generated :: instants
  data_json :: file_content

record config =
  persistence_enabled :: bool
  mute_command_enabled :: bool
  default_duration :: int
  llm_interval :: real

text \<open>What the operating system does with a write of the file: the \<^verbatim>\<open>try\<close> block of
  \<^verbatim>\<open>_save\<close> either runs to its end, or raises before the file is opened for writing
  (the file stays as it was), or raises after that (the file is truncated).\<close>

datatype io_outcome = Written | OpenFailed | WriteFailed

text \<open>\<^verbatim>\<open>__init__\<close>: empty dictionaries, an empty set; the file is whatever is on disk.\<close>

definition init_plugin :: "file_content \<Rightarrow> plugin" where
  "init_plugin f =
     \<lparr>muted_until = Map.empty, generating = {}, last_generated = Map.empty, data_json = f\<rparr>"

section \<open>Persistence\<close>

definition save :: "io_outcome \<Rightarrow> plugin \<Rightarrow> plugin" where
  "save io p =
     (case io of
        Written \<Rightarrow>
          p\<lparr>data_json :=
              Snapshot [''muted_until'' \<mapsto> muted_until p,
                        ''last_generated'' \<mapsto> last_generated p]\<rparr>
      | OpenFailed \<Rightarrow> p
      | WriteFailed \<Rightarrow> p\<lparr>data_json := Corrupt\<rparr>)"

text \<open>\<^verbatim>\<open>data.get(key) or dict()\<close>: a missing field gives a new empty dictionary, and so
  does an empty one.\<close>

definition get_or_dict :: "(string \<rightharpoonup> instants) \<Rightarrow> string \<Rightarrow> instants" where
  "get_or_dict data key = (case data key of None \<Rightarrow> Map.empty | Some d \<Rightarrow> d)"

definition load :: "plugin \<Rightarrow> plugin" where
  "load p =
     (case data_json p of
        NoFile \<Rightarrow> p
      | Corrupt \<Rightarrow> p
      | Snapshot data \<Rightarrow>
          p\<lparr>muted_until := get_or_dict data ''muted_until'',
            last_generated := get_or_dict data ''last_generated''\<rparr>)"

definition initialize :: "config \<Rightarrow> plugin \<Rightarrow> plugin" where
  "initialize cfg p = (if persistence_enabled cfg then load p else p)"

definition terminate :: "config \<Rightarrow> io_outcome \<Rightarrow> plugin \<Rightarrow> plugin" where
  "terminate cfg io p = (if persistence_enabled cfg then save io p else p)"

section \<open>Rendering of instants (\<^verbatim>\<open>utils.py\<close>)\<close>

text \<open>
  \<^verbatim>\<open>ts2str(ts)\<close> is \<^verbatim>\<open>datetime.fromtimestamp(ts).strftime(...)\<close>. The library call is a
  parameter: it gives the text, or the exception it raises for an instant that
  \<^verbatim>\<open>datetime\<close> cannot represent. An exception leaves the function that raised it at once;
  what it had stored before stays stored.
\<close>

datatype py_error = ValueError

type_synonym datetime_lib = "real \<Rightarrow> py_error + string"

definition ts2str :: "datetime_lib \<Rightarrow> real \<Rightarrow> py_error + string" where
  "ts2str lib ts = lib ts"

text \<open>
  The library on which the theorems below are run. \<^verbatim>\<open>datetime\<close> covers the years 1 to
  9999, in UTC the instants from \<open>-62135596800\<close> up to \<open>253402300800\<close>, and
  \<^verbatim>\<open>fromtimestamp\<close> raises \<^verbatim>\<open>ValueError\<close> ("year ... is out of range") outside; the text of
  an instant inside is given by a rendering function.
\<close>

definition year_range_datetime :: "(real \<Rightarrow> string) \<Rightarrow> datetime_lib" where
  "year_range_datetime render ts =
     (if - 62135596800 \<le> ts \<and> ts < 253402300800 then Inr (render ts) else Inl ValueError)"

section \<open>Mute registry\<close>

text \<open>\<^verbatim>\<open>_is_muted\<close>: the result and the plugin after the call; an entry that has run out
  is removed by the call that finds it.\<close>

definition is_muted :: "real \<Rightarrow> sid \<Rightarrow> plugin \<Rightarrow> bool \<times> plugin" where
  "is_muted current_ts sid p =
     (case muted_until p sid of
        None \<Rightarrow> (False, p)
      | Some unmute_ts \<Rightarrow>
          if current_ts < unmute_ts then (True, p)
          else (False, p\<lparr>muted_until := (muted_until p)(sid := None)\<rparr>))"

text \<open>\<^verbatim>\<open>_mute\<close>: the entry is stored first; then the log line renders the expiry, and only
  after it does the snapshot get saved.\<close>

definition mute ::
  "datetime_lib \<Rightarrow> config \<Rightarrow> real \<Rightarrow> io_outcome \<Rightarrow> sid \<Rightarrow> int option \<Rightarrow> plugin
     \<Rightarrow> (py_error + unit) \<times> plugin" where
  "mute lib cfg now io sid duration p =
     (let d = (case duration of None \<Rightarrow> default_duration cfg | Some d \<Rightarrow> d);
          until = now + of_int d;
          p' = p\<lparr>muted_until := (muted_until p)(sid \<mapsto> until)\<rparr>
      in case ts2str lib until of
           Inl e \<Rightarrow> (Inl e, p')
         | Inr _ \<Rightarrow> (Inr (), if persistence_enabled cfg then save io p' else p'))"

definition unmute :: "config \<Rightarrow> io_outcome \<Rightarrow> sid \<Rightarrow> plugin \<Rightarrow> bool \<times> plugin" where
  "unmute cfg io sid p =
     (case muted_until p sid of
        None \<Rightarrow> (False, p)
      | Some _ \<Rightarrow>
          (let p' = p\<lparr>muted_until := (muted_until p)(sid := None)\<rparr>
           in (True, if persistence_enabled cfg then save io p' else p')))"

section \<open>Formatting of durations (\<^verbatim>\<open>utils.py\<close>)\<close>

text \<open>Python's \<^verbatim>\<open>int(x)\<close> on a float drops the fraction (rounds towards zero); on the
  integers \<^verbatim>\<open>//\<close> and \<^verbatim>\<open>%\<close> are HOL's \<open>div\<close> and \<open>mod\<close> (both round down).\<close>

definition py_int :: "real \<Rightarrow> int" where
  "py_int x = (if 0 \<le> x then \<lfloor>x\<rfloor> else \<lceil>x\<rceil>)"

text \<open>\<^verbatim>\<open>str\<close> of an integer: its decimal digits, after a minus sign when it is negative.\<close>

definition digit_char :: "nat \<Rightarrow> char" where
  "digit_char n = ''0123456789'' ! n"

function str_nat :: "nat \<Rightarrow> string" where
  "str_nat n = (if n < 10 then [digit_char n] else str_nat (n div 10) @ [digit_char (n mod 10)])"
  by pat_completeness auto
termination
  by (relation "measure id") auto

declare str_nat.simps [simp del]

definition str_int :: "int \<Rightarrow> string" where
  "str_int i = (if i < 0 then CHR ''-'' # str_nat (nat (- i)) else str_nat (nat i))"

fun join :: "string \<Rightarrow> string list \<Rightarrow> string" where
  "join sep [] = []"
| "join sep [x] = x"
| "join sep (x # y # ys) = x @ sep @ join sep (y # ys)"

text \<open>The unit names of \<^verbatim>\<open>sec2str\<close>, each after the blank of its format string, and the
  other texts of the plugin, as the bytes of their UTF-8 encoding.\<close>

definition day_text :: string where
  "day_text = [CHR 0x20, CHR 0xE5, CHR 0xA4, CHR 0xA9]"

definition hour_text :: string where
  "hour_text = [CHR 0x20, CHR 0xE5, CHR 0xB0, CHR 0x8F, CHR 0xE6, CHR 0x97, CHR 0xB6]"

definition minute_text :: string where
  "minute_text = [CHR 0x20, CHR 0xE5, CHR 0x88, CHR 0x86, CHR 0xE9, CHR 0x92, CHR 0x9F]"

definition second_text :: string where
  "second_text = [CHR 0x20, CHR 0xE7, CHR 0xA7, CHR 0x92]"

definition not_muted_text :: string where
  "not_muted_text =
     [CHR 0xE6, CHR 0x9C, CHR 0xAA, CHR 0xE7, CHR 0xA6, CHR 0x81, CHR 0xE8, CHR 0xA8, CHR 0x80]"



definition unmuted_reply_text :: string where
  "unmuted_reply_text =
     [CHR 0xE5, CHR 0xB7, CHR 0xB2, CHR 0xE8, CHR 0xA7, CHR 0xA3, CHR 0xE9, CHR 0x99, CHR 0xA4,
      CHR 0x20, CHR 0x4C, CHR 0x4C, CHR 0x4D, CHR 0x20, CHR 0xE7, CHR 0xA6, CHR 0x81, CHR 0xE8,
      CHR 0xA8, CHR 0x80]"

definition sec2str :: "real \<Rightarrow> string" where
  "sec2str seconds0 =
     (let seconds = py_int seconds0;
          parts = [];
          day = seconds div 86400;
          (seconds, parts) =
            (if day \<noteq> 0 then (seconds mod 86400, parts @ [str_int day @ day_text])
             else (seconds, parts));
          hour = seconds div 3600;
          (seconds, parts) =
            (if hour \<noteq> 0 then (seconds mod 3600, parts @ [str_int hour @ hour_text])
             else (seconds, parts));
          minute = seconds div 60;
          (seconds, parts) =
            (if minute \<noteq> 0 then (seconds mod 60, parts @ [str_int minute @ minute_text])
             else (seconds, parts));
          second = seconds;
          parts = (if second \<noteq> 0 then parts @ [str_int second @ second_text] else parts)
      in join '' '' parts)"

text \<open>A part of the text of \<^verbatim>\<open>sec2str\<close>: a number followed by its unit.\<close>

definition is_part :: "string \<Rightarrow> bool" where
  "is_part p \<longleftrightarrow> (\<exists>v u. p = str_int v @ u)"

section \<open>Queries on the mute registry\<close>

definition get_mute_left_time :: "real \<Rightarrow> sid \<Rightarrow> plugin \<Rightarrow> string" where
  "get_mute_left_time current_ts sid p =
     (case muted_until p sid of
        None \<Rightarrow> not_muted_text
      | Some unmute_ts \<Rightarrow> (let total = unmute_ts - current_ts in sec2str total))"


section \<open>The request and response handlers\<close>

text \<open>What \<^verbatim>\<open>on_llm_req\<close> does to the event: it lets it proceed, or it stops it at one
  of its three \<^verbatim>\<open>event.stop_event()\<close> calls.\<close>

datatype stop_reason = Muted | IntervalTooShort | AlreadyGenerating

datatype req_outcome = Proceeds | Stopped stop_reason

definition on_llm_req :: "config \<Rightarrow> real \<Rightarrow> sid \<Rightarrow> real \<Rightarrow> plugin \<Rightarrow> req_outcome \<times> plugin" where
  "on_llm_req cfg now sid msg_time p =
     (let (muted, p) = is_muted now sid p in
      if muted then (Stopped Muted, p)
      else
        let last_gen = (case last_generated p sid of None \<Rightarrow> 0 | Some t \<Rightarrow> t) in
        if msg_time - last_gen < llm_interval cfg then (Stopped IntervalTooShort, p)
        else if sid \<in> generating p then (Stopped AlreadyGenerating, p)
        else (Proceeds, p\<lparr>generating := insert sid (generating p)\<rparr>))"

definition on_llm_resp :: "real \<Rightarrow> sid \<Rightarrow> plugin \<Rightarrow> plugin" where
  "on_llm_resp now sid p =
     (let p = (if sid \<in> generating p then p\<lparr>generating := generating p - {sid}\<rparr> else p)
      in p\<lparr>last_generated := (last_generated p)(sid \<mapsto> now)\<rparr>)"

section \<open>The administrator's commands\<close>


definition llm_unmute_command ::
  "config \<Rightarrow> bool \<Rightarrow> io_outcome \<Rightarrow> sid \<Rightarrow> plugin \<Rightarrow> string option \<times> plugin" where
  "llm_unmute_command cfg is_admin io sid p =
     (if mute_command_enabled cfg \<and> is_admin then
        let (removed, p) = unmute cfg io sid p
        in if removed then (Some unmuted_reply_text, p) else (None, p)
      else (None, p))"

section \<open>Example inputs\<close>

text \<open>A configuration, a library and a plugin state on which the theorems below are run.
  The library renders an instant inside the year range as its whole seconds; no theorem
  depends on that text. The first session id is not ASCII: it is the UTF-8 encoding of a
  two-character Chinese word.\<close>

definition example_config :: config where
  "example_config =
     \<lparr>persistence_enabled = True, mute_command_enabled = True, default_duration = 60,
      llm_interval = 10\<rparr>"

definition example_datetime :: datetime_lib where
  "example_datetime = year_range_datetime (\<lambda>ts. str_int \<lfloor>ts\<rfloor>)"

definition example_sid :: sid where
  "example_sid = [CHR 0xE4, CHR 0xBC, CHR 0x9A, CHR 0xE8, CHR 0xAF, CHR 0x9D]"

definition example_plugin :: plugin where
  "example_plugin =
     \<lparr>muted_until = [example_sid \<mapsto> 1060], generating = {},
      last_generated = [example_sid \<mapsto> 1000, ''room-1'' \<mapsto> 100], data_json = NoFile\<rparr>"

section \<open>Facts about the mute registry and the snapshot\<close>

lemma is_muted_fst: "fst (is_muted t sid p) \<longleftrightarrow> (\<exists>e. muted_until p sid = Some e \<and> t < e)"
  by (simp add: is_muted_def split: option.split)

lemma is_muted_live: "muted_until p sid = Some e \<Longrightarrow> t < e \<Longrightarrow> is_muted t sid p = (True, p)"
  by (simp add: is_muted_def)

lemma is_muted_expired:
  "muted_until p sid = Some e \<Longrightarrow> e \<le> t \<Longrightarrow>
     is_muted t sid p = (False, p\<lparr>muted_until := (muted_until p)(sid := None)\<rparr>)"
  by (simp add: is_muted_def)

lemma is_muted_absent: "muted_until p sid = None \<Longrightarrow> is_muted t sid p = (False, p)"
  by (simp add: is_muted_def)

lemma muted_until_save: "muted_until (save io p) = muted_until p"
  by (cases io) (simp_all add: save_def)

lemma last_generated_save: "last_generated (save io p) = last_generated p"
  by (cases io) (simp_all add: save_def)

lemma generating_save: "generating (save io p) = generating p"
  by (cases io) (simp_all add: save_def)



lemma on_llm_resp_fields:
  "generating (on_llm_resp now sid p) = generating p - {sid}"
  "last_generated (on_llm_resp now sid p) = (last_generated p)(sid \<mapsto> now)"
  "muted_until (on_llm_resp now sid p) = muted_until p"
  "data_json (on_llm_resp now sid p) = data_json p"
  by (auto simp: on_llm_resp_def Let_def)

lemma load_save_Written:
  "load (init_plugin (data_json (save Written p)))
     = \<lparr>muted_until = muted_until p, generating = {}, last_generated = last_generated p,
        data_json = data_json (save Written p)\<rparr>"
  by (simp add: load_def save_def init_plugin_def get_or_dict_def)

section \<open>Admission\<close>

text \<open>
  Claim C1, as stated, reads the cooldown condition of a session with no recorded
  completion as met, whatever the request's timestamp. The handler reads the missing
  instant as \<open>0\<close>: a session that is not muted, has no recorded completion and is not in
  the generating set is stopped for its interval when its timestamp is below the interval.
\<close>

theorem admission_unrecorded_counterexample:
  "muted_until example_plugin ''room-2'' = None
   \<and> last_generated example_plugin ''room-2'' = None
   \<and> ''room-2'' \<notin> generating example_plugin
   \<and> fst (on_llm_req example_config 2000 ''room-2'' 3 example_plugin) = Stopped IntervalTooShort
   \<and> ''room-2'' \<notin> generating (snd (on_llm_req example_config 2000 ''room-2'' 3 example_plugin))"
  by (simp add: on_llm_req_def is_muted_def example_plugin_def example_sid_def example_config_def)

text \<open>
  Claim C1, amended. For every session, request timestamp, clock reading and state,
  \<^verbatim>\<open>on_llm_req\<close> lets the request proceed if and only if the session has no mute entry
  with an expiry after the clock reading, the request's own timestamp \<open>msg_time\<close> minus
  the last-generated instant of the session, taken as \<open>0\<close> when none is recorded, is at
  least the configured interval, and the session is not in the generating set. When the
  request proceeds the session has been added to the generating set; when it is stopped
  the set is as before. The clock reading \<open>now\<close> occurs in the mute condition only.
\<close>

theorem on_llm_req_admits_iff:
  "(fst (on_llm_req cfg now sid msg_time p) = Proceeds \<longleftrightarrow>
      (case muted_until p sid of None \<Rightarrow> True | Some expiry \<Rightarrow> expiry \<le> now)
      \<and> llm_interval cfg \<le> msg_time - (case last_generated p sid of None \<Rightarrow> 0 | Some t \<Rightarrow> t)
      \<and> sid \<notin> generating p)
   \<and> (fst (on_llm_req cfg now sid msg_time p) = Proceeds \<longrightarrow>
        generating (snd (on_llm_req cfg now sid msg_time p)) = insert sid (generating p))
   \<and> (fst (on_llm_req cfg now sid msg_time p) \<noteq> Proceeds \<longrightarrow>
        generating (snd (on_llm_req cfg now sid msg_time p)) = generating p)"
  by (auto simp: on_llm_req_def is_muted_def Let_def split: option.splits)

theorem on_llm_req_admits_iff_witness:
  "fst (on_llm_req example_config 200 ''room-1'' 150 example_plugin) = Proceeds
   \<and> generating (snd (on_llm_req example_config 200 ''room-1'' 150 example_plugin)) = {''room-1''}
   \<and> fst (on_llm_req example_config 1030 example_sid 1030 example_plugin) \<noteq> Proceeds
   \<and> generating (snd (on_llm_req example_config 1030 example_sid 1030 example_plugin)) = {}
   \<and> fst (on_llm_req example_config 1060 example_sid 1030 example_plugin) = Proceeds
   \<and> fst (on_llm_req example_config 1060 example_sid 1009 example_plugin) \<noteq> Proceeds
   \<and> fst (on_llm_req example_config 1060 example_sid 1030
             (example_plugin\<lparr>generating := {example_sid}\<rparr>)) \<noteq> Proceeds"
  using on_llm_req_admits_iff [of example_config 200 "''room-1''" 150 example_plugin]
        on_llm_req_admits_iff [of example_config 1030 example_sid 1030 example_plugin]
        on_llm_req_admits_iff [of example_config 1060 example_sid 1030 example_plugin]
        on_llm_req_admits_iff [of example_config 1060 example_sid 1009 example_plugin]
        on_llm_req_admits_iff [of example_config 1060 example_sid 1030
          "example_plugin\<lparr>generating := {example_sid}\<rparr>"]
  by (simp add: example_plugin_def example_config_def example_sid_def)

text \<open>
  Claim C6. A session that is muted at the clock reading and whose request lies within the
  cooldown interval is stopped at the muted check, and the plugin is left as it was: the
  last-generated dictionary and the generating set are unchanged.
\<close>

theorem muted_precedes_cooldown:
  assumes "fst (is_muted now sid p)"
    and "msg_time - (case last_generated p sid of None \<Rightarrow> 0 | Some t \<Rightarrow> t) < llm_interval cfg"
  shows "on_llm_req cfg now sid msg_time p = (Stopped Muted, p)"
  using assms by (auto simp: on_llm_req_def is_muted_def split: option.splits if_splits)

theorem muted_precedes_cooldown_witness:
  "fst (is_muted 1030 example_sid example_plugin)
   \<and> 1005 - 1000 < llm_interval example_config
   \<and> on_llm_req example_config 1030 example_sid 1005 example_plugin = (Stopped Muted, example_plugin)"
proof -
  have m: "fst (is_muted 1030 example_sid example_plugin)"
    by (simp add: is_muted_def example_plugin_def)
  have c: "1005 - (case last_generated example_plugin example_sid of None \<Rightarrow> 0 | Some t \<Rightarrow> t)
             < llm_interval example_config"
    by (simp add: example_plugin_def example_config_def example_sid_def)
  show ?thesis
    using m muted_precedes_cooldown [OF m c] by (simp add: example_config_def)
qed

section \<open>Mute and unmute\<close>



text \<open>
  Claim C8. \<^verbatim>\<open>_unmute\<close> removes the entry of the session and returns true when there is
  one, after which the session is not muted at any clock reading; when there is none it
  returns false and leaves the plugin as it was.
\<close>

theorem unmute_removes:
  "(muted_until p sid \<noteq> None \<longrightarrow>
      fst (unmute cfg io sid p) = True
      \<and> muted_until (snd (unmute cfg io sid p)) = (muted_until p)(sid := None)
      \<and> (\<forall>t. fst (is_muted t sid (snd (unmute cfg io sid p))) = False))
   \<and> (muted_until p sid = None \<longrightarrow> unmute cfg io sid p = (False, p))"
proof (cases "muted_until p sid")
  case None
  then show ?thesis by (simp add: unmute_def)
next
  case (Some e)
  then have u: "unmute cfg io sid p =
      (True, if persistence_enabled cfg then save io (p\<lparr>muted_until := (muted_until p)(sid := None)\<rparr>)
             else p\<lparr>muted_until := (muted_until p)(sid := None)\<rparr>)"
    by (simp add: unmute_def)
  have m: "muted_until (snd (unmute cfg io sid p)) = (muted_until p)(sid := None)"
    by (simp add: u muted_until_save)
  have "\<forall>t. fst (is_muted t sid (snd (unmute cfg io sid p))) = False"
    by (simp add: is_muted_fst m)
  with Some u m show ?thesis by simp
qed

theorem unmute_removes_witness:
  "muted_until example_plugin example_sid \<noteq> None
   \<and> fst (unmute example_config Written example_sid example_plugin) = True
   \<and> muted_until (snd (unmute example_config Written example_sid example_plugin)) example_sid = None
   \<and> fst (is_muted 1030 example_sid (snd (unmute example_config Written example_sid example_plugin))) = False
   \<and> muted_until example_plugin ''room-1'' = None
   \<and> unmute example_config Written ''room-1'' example_plugin = (False, example_plugin)"
  using unmute_removes [of example_plugin example_sid example_config Written]
        unmute_removes [of example_plugin "''room-1''" example_config Written]
  by (simp add: example_plugin_def example_sid_def)




section \<open>Response completion and cooldown\<close>

text \<open>
  Claim C3. The claim has \<^verbatim>\<open>on_llm_resp\<close> save a snapshot when persistence is enabled, as
  \<^verbatim>\<open>_mute\<close> and \<^verbatim>\<open>_unmute\<close> do. With persistence enabled, \<^verbatim>\<open>on_llm_resp\<close> records the
  completion instant and leaves the file as it was (here: absent), so a plugin started from
  that file knows nothing of the completion; \<^verbatim>\<open>_mute\<close> and \<^verbatim>\<open>_unmute\<close> on the same plugin
  both write the file.
\<close>

theorem on_llm_resp_never_saves:
  "persistence_enabled example_config
   \<and> last_generated (on_llm_resp 2000 ''room-1'' example_plugin) ''room-1'' = Some 2000
   \<and> data_json (on_llm_resp 2000 ''room-1'' example_plugin) = NoFile
   \<and> last_generated (load (init_plugin (data_json (on_llm_resp 2000 ''room-1'' example_plugin))))
        ''room-1'' = None
   \<and> data_json (snd (mute example_datetime example_config 2000 Written ''room-1'' (Some 60)
        example_plugin)) \<noteq> NoFile
   \<and> data_json (snd (unmute example_config Written example_sid example_plugin)) \<noteq> NoFile"
  by (simp add: example_config_def example_plugin_def on_llm_resp_def load_def init_plugin_def
        mute_def unmute_def save_def ts2str_def example_datetime_def year_range_datetime_def
        Let_def)

text \<open>
  Claim C4, as stated, fails for a session with no recorded completion: the handler reads
  the missing instant as \<open>0\<close>, so a request with a timestamp below the interval is stopped.
\<close>

theorem cooldown_unrecorded_counterexample:
  "last_generated (init_plugin NoFile) ''room-1'' = None
   \<and> fst (on_llm_req example_config 100 ''room-1'' 5 (init_plugin NoFile))
       = Stopped IntervalTooShort"
  by (simp add: on_llm_req_def is_muted_def init_plugin_def example_config_def)

text \<open>
  Claim C4, amended. After \<^verbatim>\<open>on_llm_resp\<close> at clock reading \<open>t0\<close>, a request of a session
  that is not muted is stopped for its interval when its timestamp \<open>t\<close> has
  \<open>t0 \<le> t < t0 + interval\<close>, and proceeds when \<open>t \<ge> t0 + interval\<close>. For a session
  with no recorded completion the last-generated instant is read as \<open>0\<close>: the request is
  stopped for its interval exactly when \<open>t < interval\<close>.
\<close>

theorem cooldown_window:
  "(\<not> fst (is_muted now sid (on_llm_resp t0 sid p)) \<longrightarrow>
      (t0 \<le> t \<and> t < t0 + llm_interval cfg \<longrightarrow>
         fst (on_llm_req cfg now sid t (on_llm_resp t0 sid p)) = Stopped IntervalTooShort)
      \<and> (t0 + llm_interval cfg \<le> t \<longrightarrow>
         fst (on_llm_req cfg now sid t (on_llm_resp t0 sid p)) = Proceeds))
   \<and> (last_generated p sid = None \<and> \<not> fst (is_muted now sid p) \<longrightarrow>
        (fst (on_llm_req cfg now sid t p) = Stopped IntervalTooShort \<longleftrightarrow> t < llm_interval cfg))"
  by (auto simp: on_llm_req_def is_muted_def on_llm_resp_def Let_def split: option.splits)

theorem cooldown_window_witness:
  "\<not> fst (is_muted 2000 ''room-1'' (on_llm_resp 1000 ''room-1'' example_plugin))
   \<and> fst (on_llm_req example_config 2000 ''room-1'' 1009 (on_llm_resp 1000 ''room-1'' example_plugin))
       = Stopped IntervalTooShort
   \<and> fst (on_llm_req example_config 2000 ''room-1'' 1010 (on_llm_resp 1000 ''room-1'' example_plugin))
       = Proceeds
   \<and> last_generated (init_plugin NoFile) ''room-1'' = None
   \<and> \<not> fst (is_muted 2000 ''room-1'' (init_plugin NoFile))
   \<and> fst (on_llm_req example_config 2000 ''room-1'' 5 (init_plugin NoFile)) = Stopped IntervalTooShort
   \<and> fst (on_llm_req example_config 2000 ''room-1'' 10 (init_plugin NoFile)) \<noteq> Stopped IntervalTooShort"
  using cooldown_window [of 2000 "''room-1''" 1000 example_plugin 1009 example_config]
        cooldown_window [of 2000 "''room-1''" 1000 example_plugin 1010 example_config]
        cooldown_window [of 2000 "''room-1''" 1000 "init_plugin NoFile" 5 example_config]
        cooldown_window [of 2000 "''room-1''" 1000 "init_plugin NoFile" 10 example_config]
  by (simp add: is_muted_fst on_llm_resp_fields example_plugin_def example_sid_def
        example_config_def init_plugin_def)

section \<open>Snapshot round trip\<close>

text \<open>
  Claim C7. A plugin started on the file that \<^verbatim>\<open>_save\<close> wrote loads the two dictionaries
  that were saved, whatever the session ids are; the snapshot has exactly the fields
  \<^verbatim>\<open>muted_until\<close> and \<^verbatim>\<open>last_generated\<close>; and a field missing from the file loads as
  an empty dictionary.
\<close>

theorem snapshot_roundtrip:
  "muted_until (load (init_plugin (data_json (save Written p)))) = muted_until p
   \<and> last_generated (load (init_plugin (data_json (save Written p)))) = last_generated p
   \<and> (\<exists>data. data_json (save Written p) = Snapshot data
         \<and> dom data = {''muted_until'', ''last_generated''})
   \<and> (data ''muted_until'' = None \<longrightarrow>
        muted_until (load (q\<lparr>data_json := Snapshot data\<rparr>)) = Map.empty)
   \<and> (data ''last_generated'' = None \<longrightarrow>
        last_generated (load (q\<lparr>data_json := Snapshot data\<rparr>)) = Map.empty)"
  by (auto simp: load_def save_def init_plugin_def get_or_dict_def)

theorem snapshot_roundtrip_witness:
  "muted_until (load (init_plugin (data_json (save Written example_plugin)))) example_sid = Some 1060
   \<and> last_generated (load (init_plugin (data_json (save Written example_plugin)))) example_sid
       = Some 1000
   \<and> [''muted_until'' \<mapsto> muted_until example_plugin] ''last_generated'' = None
   \<and> last_generated (load (example_plugin
        \<lparr>data_json := Snapshot [''muted_until'' \<mapsto> muted_until example_plugin]\<rparr>)) = Map.empty
   \<and> Map.empty ''muted_until'' = (None :: instants option)
   \<and> muted_until (load (example_plugin\<lparr>data_json := Snapshot Map.empty\<rparr>)) = Map.empty"
  using snapshot_roundtrip [of example_plugin "[''muted_until'' \<mapsto> muted_until example_plugin]"
          example_plugin]
        snapshot_roundtrip [of example_plugin Map.empty example_plugin]
  by (simp add: example_plugin_def example_sid_def)

section \<open>Remaining mute time\<close>

text \<open>Every text that \<^verbatim>\<open>sec2str\<close> returns is empty or starts with a digit or a minus
  sign, so it is never the text returned for a session that is not muted.\<close>

lemma digit_char_range: "n < 10 \<Longrightarrow> digit_char n \<in> set ''0123456789''"
  unfolding digit_char_def by (rule nth_mem) simp

lemma str_nat_head: "\<exists>c cs. str_nat n = c # cs \<and> c \<in> set ''0123456789''"
proof (induction n rule: str_nat.induct)
  case (1 n)
  show ?case
  proof (cases "n < 10")
    case True
    then have "str_nat n = [digit_char n]" by (subst str_nat.simps) simp
    with digit_char_range [OF True] show ?thesis by blast
  next
    case False
    with "1.IH" obtain c cs where h: "str_nat (n div 10) = c # cs" "c \<in> set ''0123456789''"
      by blast
    from False have "str_nat n = str_nat (n div 10) @ [digit_char (n mod 10)]"
      by (subst str_nat.simps) simp
    with h have "str_nat n = c # (cs @ [digit_char (n mod 10)])" by simp
    with h(2) show ?thesis by blast
  qed
qed

lemma str_int_head: "\<exists>c cs. str_int i = c # cs \<and> c \<in> set ''-0123456789''"
proof (cases "i < 0")
  case True
  then show ?thesis by (simp add: str_int_def)
next
  case False
  obtain c cs where h: "str_nat (nat i) = c # cs" "c \<in> set ''0123456789''"
    using str_nat_head by blast
  from False h(1) have "str_int i = c # cs" by (simp add: str_int_def)
  moreover from h(2) have "c \<in> set ''-0123456789''" by auto
  ultimately show ?thesis by blast
qed

lemma join_Cons_Cons: "join sep ((x # xs) # ps) = x # tl (join sep ((x # xs) # ps))"
  by (cases ps) simp_all

lemma part_head:
  "\<exists>c cs. join sep ((str_int i @ u) # ps) = c # cs \<and> c \<in> set ''-0123456789''"
proof -
  obtain c cs where h: "str_int i = c # cs" "c \<in> set ''-0123456789''"
    using str_int_head by blast
  then have "join sep ((str_int i @ u) # ps) = c # tl (join sep (((c # cs) @ u) # ps))"
    using join_Cons_Cons [of sep c "cs @ u" ps] by simp
  with h show ?thesis by blast
qed

lemma is_part_I: "is_part (str_int v @ u)"
  by (auto simp: is_part_def)

lemma join_parts_head:
  assumes "\<forall>p\<in>set ps. is_part p"
  shows "join sep ps = [] \<or> (\<exists>c cs. join sep ps = c # cs \<and> c \<in> set ''-0123456789'')"
proof (cases ps)
  case Nil
  then show ?thesis by simp
next
  case (Cons p qs)
  with assms obtain v u where "p = str_int v @ u" by (auto simp: is_part_def)
  with Cons part_head [of sep v u qs] show ?thesis by simp
qed

lemma step_parts:
  "\<forall>p\<in>set ps. is_part p \<Longrightarrow>
     \<forall>p\<in>set (snd (if c then (a, ps @ [str_int v @ u]) else (b, ps))). is_part p"
  by (simp add: is_part_I)

lemma last_parts:
  "\<forall>p\<in>set ps. is_part p \<Longrightarrow>
     \<forall>p\<in>set (if c then ps @ [str_int v @ u] else ps). is_part p"
  by (simp add: is_part_I)

lemma sec2str_parts: "\<exists>ps. sec2str x = join '' '' ps \<and> (\<forall>p\<in>set ps. is_part p)"
proof -
  define s0 where "s0 = py_int x"
  define r1 where "r1 = (if s0 div 86400 \<noteq> 0
      then (s0 mod 86400, [] @ [str_int (s0 div 86400) @ day_text]) else (s0, []))"
  define r2 where "r2 = (if fst r1 div 3600 \<noteq> 0
      then (fst r1 mod 3600, snd r1 @ [str_int (fst r1 div 3600) @ hour_text])
      else (fst r1, snd r1))"
  define r3 where "r3 = (if fst r2 div 60 \<noteq> 0
      then (fst r2 mod 60, snd r2 @ [str_int (fst r2 div 60) @ minute_text])
      else (fst r2, snd r2))"
  define ps where "ps = (if fst r3 \<noteq> 0 then snd r3 @ [str_int (fst r3) @ second_text] else snd r3)"
  have eq: "sec2str x = join '' '' ps"
    unfolding sec2str_def ps_def r3_def r2_def r1_def s0_def
    by (simp only: Let_def case_prod_beta)
  have p1: "\<forall>p\<in>set (snd r1). is_part p"
    unfolding r1_def by (rule step_parts) simp
  have p2: "\<forall>p\<in>set (snd r2). is_part p"
    unfolding r2_def by (rule step_parts) (rule p1)
  have p3: "\<forall>p\<in>set (snd r3). is_part p"
    unfolding r3_def by (rule step_parts) (rule p2)
  have "\<forall>p\<in>set ps. is_part p"
    unfolding ps_def by (rule last_parts) (rule p3)
  with eq show ?thesis by blast
qed

lemma sec2str_head:
  "sec2str x = [] \<or> (\<exists>c cs. sec2str x = c # cs \<and> c \<in> set ''-0123456789'')"
proof -
  obtain ps where "sec2str x = join '' '' ps" "\<forall>p\<in>set ps. is_part p"
    using sec2str_parts by blast
  with join_parts_head [of ps "'' ''"] show ?thesis by simp
qed

lemma sec2str_not_unmuted: "sec2str x \<noteq> not_muted_text"
proof
  assume a: "sec2str x = not_muted_text"
  from sec2str_head [of x] show False
  proof
    assume "sec2str x = []"
    with a show False by (simp add: not_muted_text_def)
  next
    assume "\<exists>c cs. sec2str x = c # cs \<and> c \<in> set ''-0123456789''"
    then obtain c cs where "sec2str x = c # cs" "c \<in> set ''-0123456789''" by blast
    with a show False by (auto simp: not_muted_text_def)
  qed
qed

lemma get_mute_left_time_ignores_liveness:
  "muted_until p sid = Some expiry \<Longrightarrow>
     get_mute_left_time now sid p = sec2str (expiry - now)
     \<and> get_mute_left_time now sid p \<noteq> not_muted_text"
  by (simp add: get_mute_left_time_def sec2str_not_unmuted)

text \<open>
  Claim C5. The claim has \<^verbatim>\<open>get_mute_left_time\<close> answer "not muted" for a session without
  a live entry, and never a negative time. \<^verbatim>\<open>get_mute_left_time\<close> gives that answer only
  when there is no entry at all, while \<^verbatim>\<open>_is_muted\<close> counts an entry that has run out as
  not muted. For an entry with expiry 1060 queried at clock reading 1100 the muted check
  is false, yet the query returns the text of minus forty seconds. The same text is in
  the reply of \<^verbatim>\<open>/llm_mute\<close> with the duration \<open>-40\<close>.
\<close>

theorem get_mute_left_time_stale_entry:
  "muted_until example_plugin example_sid = Some 1060
   \<and> fst (is_muted 1100 example_sid example_plugin) = False
   \<and> get_mute_left_time 1100 example_sid example_plugin
       = ''-1'' @ day_text @ '' 23'' @ hour_text @ '' 59'' @ minute_text @ '' 20'' @ second_text
   \<and> get_mute_left_time 1100 example_sid example_plugin \<noteq> not_muted_text
   \<and> get_mute_left_time 1000 ''room-1''
         (snd (mute example_datetime example_config 1000 Written ''room-1'' (Some (- 40))
            example_plugin))
       = ''-1'' @ day_text @ '' 23'' @ hour_text @ '' 59'' @ minute_text @ '' 20'' @ second_text"
  by (simp add: is_muted_def get_mute_left_time_def example_plugin_def example_sid_def
        example_config_def mute_def save_def ts2str_def example_datetime_def
        year_range_datetime_def Let_def sec2str_def py_int_def
        str_int_def str_nat.simps digit_char_def day_text_def hour_text_def minute_text_def
        second_text_def not_muted_text_def)

end
